theory Spec2Isabelle
  imports Complex_Main
begin

section \<open>The values the library receives\<close>

text \<open>
  The library (\<^verbatim>\<open>src/dtokit.ts\<close>) is handed values of static type \<^verbatim>\<open>unknown\<close> and asks little of
  them: \<^verbatim>\<open>typeof\<close>, a property read \<^verbatim>\<open>v[k]\<close>, \<^verbatim>\<open>===\<close>, the length of a string and, in the
  dispatcher, a call. The model keeps what these operations can observe.

  A value is a primitive or a reference to an object. A string is its sequence of code
  units (one \<^typ>\<open>char\<close> stands for one code unit, so \<^const>\<open>length\<close> is \<^verbatim>\<open>.length\<close>). A number
  is only ever compared by \<^verbatim>\<open>===\<close>, never computed with: it is not-a-number, negative zero,
  an infinity or a finite value.
\<close>

type_synonym addr = nat

datatype jsnum = NaN | NegZero | PosInf | NegInf | Fin rat

datatype jsval =
    Undefined
  | Null
  | Bool bool
  | Num jsnum
  | BigInt int
  | Str string
  | Symbol nat
  | Ref addr

text \<open>
  An abrupt completion: a \<^verbatim>\<open>TypeError\<close> raised by the language itself, or a value thrown
  by code the library calls into (a getter, a handler, a conversion method).
\<close>

datatype js_error = TypeError | Thrown jsval

text \<open>
  An object is what a read can see of it: its own properties, whether it is callable
  (which decides \<^verbatim>\<open>typeof\<close>) and its prototype chain, which is finite. An own property is a
  data property holding a value, or an accessor, represented by the outcome of running
  its getter (a value, or something thrown; what else the getter does happens outside the
  library). An array is an object whose own properties are its indices and \<^verbatim>\<open>length\<close>.
\<close>

datatype property = Data jsval | Accessor "js_error + jsval"

datatype obj = Obj (props: "string \<rightharpoonup> property") (callable: bool) (proto: "obj option")

text \<open>
  The environment of a call: the object behind every reference, the wrapper object
  through which a property of a primitive is read, and the conversion of a non-string
  value to a property key where the language leaves it to user code or to number
  formatting.
\<close>

record env =
  store :: "addr \<Rightarrow> obj"
  boxed :: "jsval \<Rightarrow> obj"
  key_of :: "jsval \<Rightarrow> js_error + string"

subsection \<open>\<^verbatim>\<open>typeof\<close>, \<^verbatim>\<open>===\<close> and property reads\<close>

fun typeof :: "env \<Rightarrow> jsval \<Rightarrow> string" where
  "typeof E Undefined = ''undefined''"
| "typeof E Null = ''object''"
| "typeof E (Bool b) = ''boolean''"
| "typeof E (Num n) = ''number''"
| "typeof E (BigInt i) = ''bigint''"
| "typeof E (Str s) = ''string''"
| "typeof E (Symbol n) = ''symbol''"
| "typeof E (Ref a) = (if callable (store E a) then ''function'' else ''object'')"

definition is_zero :: "jsnum \<Rightarrow> bool" where
  "is_zero n = (n = NegZero \<or> n = Fin 0)"

definition num_eq :: "jsnum \<Rightarrow> jsnum \<Rightarrow> bool" where
  "num_eq a b = (a \<noteq> NaN \<and> b \<noteq> NaN \<and> (a = b \<or> (is_zero a \<and> is_zero b)))"

text \<open>
  \<^verbatim>\<open>x === y\<close>: values of different types are never equal, numbers follow IEEE comparison
  (\<^verbatim>\<open>NaN\<close> equals nothing, the two zeros are equal), everything else is equal to itself
  only, objects by reference.
\<close>

definition strict_eq :: "jsval \<Rightarrow> jsval \<Rightarrow> bool" where
  "strict_eq x y = (case (x, y) of (Num a, Num b) \<Rightarrow> num_eq a b | _ \<Rightarrow> x = y)"

text \<open>The read of \<open>k\<close> on an object walks the prototype chain; an absent property reads as \<^verbatim>\<open>undefined\<close>.\<close>

fun obj_get :: "obj \<Rightarrow> string \<Rightarrow> js_error + jsval" where
  "obj_get (Obj ps c pr) k =
     (case ps k of
        Some (Data v) \<Rightarrow> Inr v
      | Some (Accessor r) \<Rightarrow> r
      | None \<Rightarrow> (case pr of None \<Rightarrow> Inr Undefined | Some p \<Rightarrow> obj_get p k))"

text \<open>
  \<^verbatim>\<open>v[k]\<close> for a string key: a \<^verbatim>\<open>TypeError\<close> on \<^verbatim>\<open>null\<close> and \<^verbatim>\<open>undefined\<close>, the object's read
  for a reference, the wrapper's read for any other primitive.
\<close>

fun js_get :: "env \<Rightarrow> jsval \<Rightarrow> string \<Rightarrow> js_error + jsval" where
  "js_get E Undefined k = Inl TypeError"
| "js_get E Null k = Inl TypeError"
| "js_get E (Ref a) k = obj_get (store E a) k"
| "js_get E v k = obj_get (boxed E v) k"

text \<open>The property key a value denotes when it is used as an index, \<^verbatim>\<open>o[v]\<close>.\<close>

fun to_property_key :: "env \<Rightarrow> jsval \<Rightarrow> js_error + string" where
  "to_property_key E (Str s) = Inr s"
| "to_property_key E Undefined = Inr ''undefined''"
| "to_property_key E Null = Inr ''null''"
| "to_property_key E (Bool b) = Inr (if b then ''true'' else ''false'')"
| "to_property_key E v = key_of E v"

text \<open>
  A call \<^verbatim>\<open>f(arg)\<close>: a \<^verbatim>\<open>TypeError\<close> unless \<open>f\<close> is a callable object; otherwise the function
  at that address runs on the argument. What a function does is given by \<open>run\<close>: its
  outcome and its effect on the world \<open>'w\<close> outside the library.
\<close>

type_synonym 'w behaviour = "addr \<Rightarrow> jsval \<Rightarrow> 'w \<Rightarrow> (js_error + jsval) \<times> 'w"

definition js_call :: "env \<Rightarrow> 'w behaviour \<Rightarrow> jsval \<Rightarrow> jsval \<Rightarrow> 'w \<Rightarrow> (js_error + jsval) \<times> 'w" where
  "js_call E run f arg w =
     (case f of
        Ref a \<Rightarrow> if callable (store E a) then run a arg w else (Inl TypeError, w)
      | _ \<Rightarrow> (Inl TypeError, w))"

section \<open>The factory\<close>

text \<open>
  \<^verbatim>\<open>createDtoFactory<Schemas>()(discriminatorField)\<close> returns an object with the field name
  and four methods that close over it. The type parameter \<^verbatim>\<open>Schemas\<close> is erased: nothing of
  the schema set reaches the methods. \<^verbatim>\<open>parse\<close> calls \<^verbatim>\<open>this.isValid\<close>; the methods are
  modelled as invoked on the factory as it was created, so that is the \<^verbatim>\<open>isValid\<close> below.
  The method \<^verbatim>\<open>is\<close> is named \<open>is_dto\<close> here.
\<close>

record DtoFactory =
  field :: string
  parse :: "env \<Rightarrow> jsval \<Rightarrow> js_error + jsval"
  is_dto :: "env \<Rightarrow> jsval \<Rightarrow> jsval \<Rightarrow> js_error + bool"
  getId :: "env \<Rightarrow> jsval \<Rightarrow> js_error + jsval"
  isValid :: "env \<Rightarrow> jsval \<Rightarrow> js_error + bool"

definition isValid_method :: "string \<Rightarrow> env \<Rightarrow> jsval \<Rightarrow> js_error + bool" where
  "isValid_method discriminatorField E raw =
     (if strict_eq raw Null \<or> strict_eq raw Undefined then Inr False
      else if typeof E raw \<noteq> ''object'' then Inr False
      else (case js_get E raw discriminatorField of
              Inl e \<Rightarrow> Inl e
            | Inr v \<Rightarrow>
                Inr (typeof E v = ''string'' \<and> (case v of Str s \<Rightarrow> 0 < length s | _ \<Rightarrow> False))))"

definition parse_method :: "string \<Rightarrow> env \<Rightarrow> jsval \<Rightarrow> js_error + jsval" where
  "parse_method discriminatorField E raw =
     (case isValid_method discriminatorField E raw of
        Inl e \<Rightarrow> Inl e
      | Inr ok \<Rightarrow> if \<not> ok then Inr Null else Inr raw)"

definition is_method :: "string \<Rightarrow> env \<Rightarrow> jsval \<Rightarrow> jsval \<Rightarrow> js_error + bool" where
  "is_method discriminatorField E dto ident =
     (case js_get E dto discriminatorField of
        Inl e \<Rightarrow> Inl e
      | Inr v \<Rightarrow> Inr (strict_eq v ident))"

definition getId_method :: "string \<Rightarrow> env \<Rightarrow> jsval \<Rightarrow> js_error + jsval" where
  "getId_method discriminatorField E dto = js_get E dto discriminatorField"

definition createDtoFactory :: "string \<Rightarrow> DtoFactory" where
  "createDtoFactory discriminatorField =
     \<lparr> field = discriminatorField,
       parse = parse_method discriminatorField,
       is_dto = is_method discriminatorField,
       getId = getId_method discriminatorField,
       isValid = isValid_method discriminatorField \<rparr>"

section \<open>The dispatcher\<close>

text \<open>
  \<^verbatim>\<open>o[v]\<close> with a computed key, as in \<^verbatim>\<open>handlers[id]\<close>: the base must not be \<^verbatim>\<open>null\<close> or
  \<^verbatim>\<open>undefined\<close>, the key value is converted to a property key, then the property is read.
\<close>

definition js_index :: "env \<Rightarrow> jsval \<Rightarrow> jsval \<Rightarrow> js_error + jsval" where
  "js_index E base key =
     (if base = Null \<or> base = Undefined then Inl TypeError
      else (case to_property_key E key of
              Inl e \<Rightarrow> Inl e
            | Inr k \<Rightarrow> js_get E base k))"

text \<open>
  \<^verbatim>\<open>createDtoHandler<Schemas>()(discriminatorField, handlers)\<close> returns the function
  \<^verbatim>\<open>dto => { const id = dto[discriminatorField]; const handler = handlers[id]; return handler(dto) }\<close>.
  The handler map is the object \<open>handlers\<close>; the handlers are functions of the
  environment, run by \<open>run\<close>.
\<close>

definition createDtoHandler ::
  "string \<Rightarrow> jsval \<Rightarrow> env \<Rightarrow> 'w behaviour \<Rightarrow> jsval \<Rightarrow> 'w \<Rightarrow> (js_error + jsval) \<times> 'w" where
  "createDtoHandler discriminatorField handlers E run dto w =
     (case js_get E dto discriminatorField of
        Inl e \<Rightarrow> (Inl e, w)
      | Inr ident \<Rightarrow>
          (case js_index E handlers ident of
             Inl e \<Rightarrow> (Inl e, w)
           | Inr handler \<Rightarrow> js_call E run handler dto w))"

text \<open>
  To observe which functions a call invokes, a behaviour is run with a log: every
  invocation appends the function's address and its argument.
\<close>

definition traced :: "'w behaviour \<Rightarrow> ('w \<times> (addr \<times> jsval) list) behaviour" where
  "traced run a arg = (\<lambda>(w, calls). case run a arg w of (r, w') \<Rightarrow> (r, (w', calls @ [(a, arg)])))"

section \<open>Outcomes and property presence\<close>

text \<open>An operation returns when it completes with a value rather than with an exception.\<close>

definition returns :: "js_error + 'a \<Rightarrow> bool" where
  "returns r = (case r of Inl e \<Rightarrow> False | Inr x \<Rightarrow> True)"

text \<open>
  The test \<^verbatim>\<open>typeof value === "string" && value.length > 0\<close> that \<^verbatim>\<open>isValid\<close> applies to the
  value it has read.
\<close>

definition nonempty_string :: "jsval \<Rightarrow> bool" where
  "nonempty_string v = (case v of Str s \<Rightarrow> 0 < length s | _ \<Rightarrow> False)"

text \<open>\<^verbatim>\<open>k in o\<close>: the object has a property named \<open>k\<close>, its own or inherited.\<close>

fun has_property :: "obj \<Rightarrow> string \<Rightarrow> bool" where
  "has_property (Obj ps c pr) k =
     (case ps k of
        Some p \<Rightarrow> True
      | None \<Rightarrow> (case pr of None \<Rightarrow> False | Some p \<Rightarrow> has_property p k))"

section \<open>Example values\<close>

text \<open>
  An object with the given data properties and no inherited ones, an object with one
  accessor property, a function carrying data properties, a bare function object, a
  store holding the listed objects at addresses \<open>0, 1, \<dots>\<close>, and an environment around it
  (the examples read no property of a primitive and convert no key).
\<close>

definition literal :: "(string \<times> jsval) list \<Rightarrow> obj" where
  "literal kvs = Obj (map_of (map (\<lambda>(k, v). (k, Data v)) kvs)) False None"

definition accessor_object :: "string \<Rightarrow> js_error + jsval \<Rightarrow> obj" where
  "accessor_object k r = Obj (map_of [(k, Accessor r)]) False None"

definition function_with :: "(string \<times> jsval) list \<Rightarrow> obj" where
  "function_with kvs = Obj (map_of (map (\<lambda>(k, v). (k, Data v)) kvs)) True None"

definition function_object :: obj where
  "function_object = Obj Map.empty True None"

text \<open>Functions that touch nothing and return the string listed for their address.\<close>

definition answering :: "(addr \<times> string) list \<Rightarrow> 'w behaviour" where
  "answering names a arg w =
     (case map_of names a of Some s \<Rightarrow> (Inr (Str s), w) | None \<Rightarrow> (Inr Undefined, w))"

definition heap_of :: "obj list \<Rightarrow> addr \<Rightarrow> obj" where
  "heap_of os a = (if a < length os then os ! a else literal [])"

definition env_of :: "obj list \<Rightarrow> env" where
  "env_of os = \<lparr> store = heap_of os, boxed = (\<lambda>v. literal []), key_of = (\<lambda>v. Inl TypeError) \<rparr>"

section \<open>Basic facts\<close>

lemma strict_eq_Null [simp]: "strict_eq x Null = (x = Null)"
  by (cases x) (simp_all add: strict_eq_def)

lemma strict_eq_Undefined [simp]: "strict_eq x Undefined = (x = Undefined)"
  by (cases x) (simp_all add: strict_eq_def)

lemma strict_eq_Str [simp]: "strict_eq (Str s) y = (y = Str s)"
  by (cases y) (auto simp: strict_eq_def)

lemma strict_eq_Undefined_left [simp]: "strict_eq Undefined y = (y = Undefined)"
  by (cases y) (auto simp: strict_eq_def)

lemma typeof_string_iff: "typeof E v = ''string'' \<longleftrightarrow> (\<exists>s. v = Str s)"
  by (cases v) simp_all

lemma factory_methods [simp]:
  "isValid (createDtoFactory f) = isValid_method f"
  "parse (createDtoFactory f) = parse_method f"
  "is_dto (createDtoFactory f) = is_method f"
  "getId (createDtoFactory f) = getId_method f"
  by (simp_all add: createDtoFactory_def)

lemma isValid_true_iff:
  "isValid_method f E raw = Inr True \<longleftrightarrow>
     (\<exists>a s. raw = Ref a \<and> \<not> callable (store E a) \<and> js_get E raw f = Inr (Str s) \<and> 0 < length s)"
  by (cases raw) (auto simp: isValid_method_def typeof_string_iff split: sum.splits jsval.splits)

lemma isValid_object:
  "\<not> callable (store E a) \<Longrightarrow> js_get E (Ref a) f = Inr v \<Longrightarrow>
   isValid_method f E (Ref a) = Inr (case v of Str s \<Rightarrow> 0 < length s | _ \<Rightarrow> False)"
  by (cases v) (simp_all add: isValid_method_def)

lemma isValid_not_object:
  "raw = Null \<or> raw = Undefined \<or> typeof E raw \<noteq> ''object'' \<Longrightarrow> isValid_method f E raw = Inr False"
  by (auto simp: isValid_method_def)

lemma parse_cases:
  "parse_method f E raw =
     (case isValid_method f E raw of Inl e \<Rightarrow> Inl e | Inr True \<Rightarrow> Inr raw | Inr False \<Rightarrow> Inr Null)"
  by (simp add: parse_method_def split: sum.splits)

lemma obj_get_absent: "\<not> has_property ob k \<Longrightarrow> obj_get ob k = Inr Undefined"
  by (induction ob k rule: obj_get.induct) (auto split: option.splits)

lemma store_env_of [simp]: "store (env_of os) = heap_of os"
  by (simp add: env_of_def)

lemma returns_simps [simp]: "returns (Inr x) = True" "returns (Inl e) = False"
  by (simp_all add: returns_def)

lemma returns_isValid:
  "returns (isValid_method f E raw) \<longleftrightarrow>
     raw = Null \<or> raw = Undefined \<or> typeof E raw \<noteq> ''object'' \<or> returns (js_get E raw f)"
  by (auto simp: isValid_method_def split: sum.splits)

lemma returns_parse: "returns (parse_method f E raw) = returns (isValid_method f E raw)"
  by (simp add: parse_method_def split: sum.splits)

lemma returns_is: "returns (is_method f E dto y) = returns (js_get E dto f)"
  by (simp add: is_method_def split: sum.splits)

lemma nonempty_string_simps [simp]:
  "nonempty_string (Str s) = (0 < length s)"
  "nonempty_string Undefined = False"
  "nonempty_string Null = False"
  "nonempty_string (Bool b) = False"
  "nonempty_string (Num n) = False"
  "nonempty_string (BigInt i) = False"
  "nonempty_string (Symbol k) = False"
  "nonempty_string (Ref a) = False"
  by (simp_all add: nonempty_string_def)

lemma isValid_object_read:
  "\<not> callable (store E a) \<Longrightarrow>
   isValid_method f E (Ref a) =
     (case js_get E (Ref a) f of Inl e \<Rightarrow> Inl e | Inr v \<Rightarrow> Inr (nonempty_string v))"
  by (auto simp: isValid_method_def nonempty_string_def typeof_string_iff
      split: sum.splits jsval.splits)

lemma object_kind:
  "raw \<noteq> Null \<Longrightarrow> typeof E raw = ''object'' \<Longrightarrow> \<exists>a. raw = Ref a \<and> \<not> callable (store E a)"
  by (cases raw) (auto split: if_splits)

lemma isValid_throws_iff:
  "isValid_method f E raw = Inl e \<longleftrightarrow>
     raw \<noteq> Null \<and> typeof E raw = ''object'' \<and> js_get E raw f = Inl e"
  by (cases raw) (auto simp: isValid_method_def split: sum.splits)

lemma parse_throws_iff: "parse_method f E raw = Inl e \<longleftrightarrow> isValid_method f E raw = Inl e"
  by (auto simp: parse_method_def split: sum.splits)

section \<open>The claims\<close>

text \<open>
  Claim C1. \<^verbatim>\<open>isValid(raw)\<close> is true exactly when \<open>raw\<close> is a reference to an object that is
  not callable (so neither \<^verbatim>\<open>null\<close>, \<^verbatim>\<open>undefined\<close>, a primitive nor a function) and the read
  \<^verbatim>\<open>raw[fieldName]\<close> yields a string of length greater than zero. In particular an object whose
  discriminator reads as the empty string is invalid, one whose discriminator reads as a single
  space is valid (nothing is trimmed), and one whose discriminator reads as a value that is
  not a string (a number, \<^verbatim>\<open>null\<close>, an array, an object, a boolean) is invalid.
\<close>
theorem isValid_characterisation:
  "(isValid (createDtoFactory f) E raw = Inr True \<longleftrightarrow>
      (\<exists>a s. raw = Ref a \<and> \<not> callable (store E a) \<and> js_get E raw f = Inr (Str s) \<and> 0 < length s))
   \<and> (\<not> callable (store E a) \<and> js_get E (Ref a) f = Inr (Str '''') \<longrightarrow>
        isValid (createDtoFactory f) E (Ref a) = Inr False)
   \<and> (\<not> callable (store E a) \<and> js_get E (Ref a) f = Inr (Str '' '') \<longrightarrow>
        isValid (createDtoFactory f) E (Ref a) = Inr True)
   \<and> (\<not> callable (store E a) \<and> js_get E (Ref a) f = Inr v \<and> typeof E v \<noteq> ''string'' \<longrightarrow>
        isValid (createDtoFactory f) E (Ref a) = Inr False)"
proof -
  have "\<not> callable (store E a) \<and> js_get E (Ref a) f = Inr v \<and> typeof E v \<noteq> ''string'' \<longrightarrow>
        isValid_method f E (Ref a) = Inr False"
    by (cases v) (simp_all add: isValid_object)
  then show ?thesis
    by (simp add: isValid_true_iff isValid_object)
qed

theorem isValid_characterisation_witness:
  "isValid (createDtoFactory ''id'') (env_of [literal [(''id'', Str '''')]]) (Ref 0) = Inr False
   \<and> isValid (createDtoFactory ''id'') (env_of [literal [(''id'', Str '' '')]]) (Ref 0) = Inr True
   \<and> isValid (createDtoFactory ''id'') (env_of [literal [(''id'', Num (Fin 123))]]) (Ref 0) = Inr False
   \<and> isValid (createDtoFactory ''id'') (env_of [literal [(''id'', Null)]]) (Ref 0) = Inr False
   \<and> isValid (createDtoFactory ''id'') (env_of [literal [(''id'', Bool True)]]) (Ref 0) = Inr False
   \<and> isValid (createDtoFactory ''id'') (env_of [literal [(''id'', Ref 1)], literal []]) (Ref 0) = Inr False
   \<and> isValid (createDtoFactory ''id'')
        (env_of [literal [(''id'', Ref 1)], literal [(''length'', Num (Fin 0))]]) (Ref 0) = Inr False"
  using isValid_characterisation [of "''id''" "env_of [literal [(''id'', Str '''')]]" "Ref 0" 0]
    isValid_characterisation [of "''id''" "env_of [literal [(''id'', Str '' '')]]" "Ref 0" 0]
    isValid_characterisation [of "''id''" "env_of [literal [(''id'', Num (Fin 123))]]" "Ref 0" 0 "Num (Fin 123)"]
    isValid_characterisation [of "''id''" "env_of [literal [(''id'', Null)]]" "Ref 0" 0 "Null"]
    isValid_characterisation [of "''id''" "env_of [literal [(''id'', Bool True)]]" "Ref 0" 0 "Bool True"]
    isValid_characterisation [of "''id''" "env_of [literal [(''id'', Ref 1)], literal []]" "Ref 0" 0 "Ref 1"]
    isValid_characterisation [of "''id''"
      "env_of [literal [(''id'', Ref 1)], literal [(''length'', Num (Fin 0))]]" "Ref 0" 0 "Ref 1"]
  by (simp add: heap_of_def literal_def)

text \<open>
  Claim C2. For every factory and every input, \<^verbatim>\<open>isValid(raw)\<close> is true exactly when
  \<^verbatim>\<open>parse(raw)\<close> returns a value other than \<^verbatim>\<open>null\<close>; and when \<^verbatim>\<open>isValid(raw)\<close> is false, \<^verbatim>\<open>parse(raw)\<close>
  returns \<^verbatim>\<open>null\<close>.
\<close>
theorem parse_null_iff_invalid:
  "(isValid (createDtoFactory f) E raw = Inr True \<longleftrightarrow>
      (\<exists>v. parse (createDtoFactory f) E raw = Inr v \<and> v \<noteq> Null))
   \<and> (isValid (createDtoFactory f) E raw = Inr False \<longleftrightarrow>
      parse (createDtoFactory f) E raw = Inr Null)"
proof -
  have "isValid_method f E raw = Inr True \<Longrightarrow> raw \<noteq> Null"
    by (auto simp: isValid_true_iff)
  then show ?thesis
    by (auto simp: parse_cases split: sum.splits bool.splits)
qed

theorem parse_null_iff_invalid_witness:
  "isValid (createDtoFactory ''id'') (env_of [literal [(''id'', Str ''a'')]]) (Ref 0) = Inr True
   \<and> parse (createDtoFactory ''id'') (env_of [literal [(''id'', Str ''a'')]]) (Ref 0) \<noteq> Inr Null
   \<and> isValid (createDtoFactory ''id'') (env_of [literal [(''id'', Num (Fin 123))]]) (Ref 0) = Inr False
   \<and> parse (createDtoFactory ''id'') (env_of [literal [(''id'', Num (Fin 123))]]) (Ref 0) = Inr Null"
  using parse_null_iff_invalid [of "''id''" "env_of [literal [(''id'', Str ''a'')]]" "Ref 0"]
    parse_null_iff_invalid [of "''id''" "env_of [literal [(''id'', Num (Fin 123))]]" "Ref 0"]
  by (auto simp: isValid_method_def heap_of_def literal_def)

text \<open>
  Claim C3. When \<^verbatim>\<open>isValid(raw)\<close> is true, \<^verbatim>\<open>parse(raw)\<close> returns \<open>raw\<close> itself: the very same
  reference, hence the same object of the store, which the methods only read.
\<close>
theorem parse_returns_same_reference:
  "isValid (createDtoFactory f) E raw = Inr True \<Longrightarrow> parse (createDtoFactory f) E raw = Inr raw"
  by (simp add: parse_cases)

theorem parse_returns_same_reference_witness:
  "isValid (createDtoFactory ''id'')
      (env_of [literal [(''id'', Str ''a''), (''payload'', Str ''hi'')]]) (Ref 0) = Inr True
   \<and> parse (createDtoFactory ''id'')
      (env_of [literal [(''id'', Str ''a''), (''payload'', Str ''hi'')]]) (Ref 0) = Inr (Ref 0)"
proof -
  have v: "isValid (createDtoFactory ''id'')
      (env_of [literal [(''id'', Str ''a''), (''payload'', Str ''hi'')]]) (Ref 0) = Inr True"
    by (simp add: isValid_method_def heap_of_def literal_def)
  from v parse_returns_same_reference [OF v] show ?thesis by simp
qed

text \<open>
  Claim C4. When the discriminator of \<open>dto\<close> reads as the string \<open>v\<close> and the handler map
  holds the function \<open>a\<close> under the key \<open>v\<close>, the dispatcher's outcome and effect are exactly
  those of running \<open>a\<close> on \<open>dto\<close>: the result is returned as it is, and the log of a traced
  run grows by the single call of \<open>a\<close> with the argument \<open>dto\<close>, so no other handler runs.
\<close>
theorem dispatch_invokes_matching_handler:
  assumes "js_get E dto f = Inr (Str v)"
    and "props (store E h) v = Some (Data (Ref a))"
    and "callable (store E a)"
  shows "createDtoHandler f (Ref h) E run dto w = run a dto w
     \<and> createDtoHandler f (Ref h) E (traced run) dto (w, calls) =
         (fst (run a dto w), (snd (run a dto w), calls @ [(a, dto)]))"
proof -
  have "obj_get (store E h) v = Inr (Ref a)"
    using assms(2) by (cases "store E h") simp
  then have "js_index E (Ref h) (Str v) = Inr (Ref a)"
    by (simp add: js_index_def)
  with assms(1,3) show ?thesis
    by (simp add: createDtoHandler_def js_call_def traced_def split: prod.splits)
qed

theorem dispatch_invokes_matching_handler_witness:
  "createDtoHandler ''id'' (Ref 1)
     (env_of [literal [(''id'', Str ''a'')], literal [(''a'', Ref 2), (''b'', Ref 3)],
              function_object, function_object])
     (answering [(2, ''from a''), (3, ''from b'')]) (Ref 0) ()
     = (Inr (Str ''from a''), ())
   \<and> createDtoHandler ''id'' (Ref 1)
     (env_of [literal [(''id'', Str ''a'')], literal [(''a'', Ref 2), (''b'', Ref 3)],
              function_object, function_object])
     (traced (answering [(2, ''from a''), (3, ''from b'')])) (Ref 0) ((), [])
     = (Inr (Str ''from a''), ((), [(2, Ref 0)]))"
  using dispatch_invokes_matching_handler
    [of "env_of [literal [(''id'', Str ''a'')], literal [(''a'', Ref 2), (''b'', Ref 3)],
              function_object, function_object]" "Ref 0" "''id''" "''a''" 1 2
        "answering [(2, ''from a''), (3, ''from b'')]" "()" "[]"]
  by (simp add: heap_of_def literal_def function_object_def answering_def)

text \<open>
  Claim C5. \<^verbatim>\<open>is(dto, value)\<close> is the result of \<^verbatim>\<open>dto[fieldName] === value\<close>: whenever the read of
  the discriminator yields \<open>x\<close>, the method returns \<open>strict_eq x y\<close>. For a discriminator
  that reads as the string \<open>X\<close>, the method is true on \<open>X\<close> and false on every other string.
\<close>
theorem is_compares_with_strict_equality:
  "(js_get E dto f = Inr x \<longrightarrow> is_dto (createDtoFactory f) E dto y = Inr (strict_eq x y))
   \<and> (js_get E dto f = Inr (Str X) \<longrightarrow>
        is_dto (createDtoFactory f) E dto (Str X) = Inr True
        \<and> (Y \<noteq> X \<longrightarrow> is_dto (createDtoFactory f) E dto (Str Y) = Inr False))"
  by (simp add: is_method_def)

theorem is_compares_with_strict_equality_witness:
  "is_dto (createDtoFactory ''id'') (env_of [literal [(''id'', Str ''X'')]]) (Ref 0) (Str ''X'') = Inr True
   \<and> is_dto (createDtoFactory ''id'') (env_of [literal [(''id'', Str ''X'')]]) (Ref 0) (Str ''Y'') = Inr False"
  using is_compares_with_strict_equality
    [of "env_of [literal [(''id'', Str ''X'')]]" "Ref 0" "''id''" "Str ''X''" "Str ''X''" "''X''" "''Y''"]
  by (simp add: heap_of_def literal_def)

text \<open>
  Claim C6. On a valid \<open>dto\<close>, \<^verbatim>\<open>getId(dto)\<close> is the read \<^verbatim>\<open>dto[fieldName]\<close> as it is: the non-empty
  string that made the \<open>dto\<close> valid.
\<close>
theorem getId_returns_field_verbatim:
  "isValid (createDtoFactory f) E dto = Inr True \<Longrightarrow>
     getId (createDtoFactory f) E dto = js_get E dto f
     \<and> (\<exists>s. getId (createDtoFactory f) E dto = Inr (Str s) \<and> 0 < length s)"
  by (auto simp: getId_method_def isValid_true_iff)

theorem getId_returns_field_verbatim_witness:
  "isValid (createDtoFactory ''id'') (env_of [literal [(''id'', Str ''a'')]]) (Ref 0) = Inr True
   \<and> getId (createDtoFactory ''id'') (env_of [literal [(''id'', Str ''a'')]]) (Ref 0) = Inr (Str ''a'')"
proof -
  have v: "isValid (createDtoFactory ''id'') (env_of [literal [(''id'', Str ''a'')]]) (Ref 0) = Inr True"
    by (simp add: isValid_method_def heap_of_def literal_def)
  from v getId_returns_field_verbatim [OF v] show ?thesis by (simp add: heap_of_def literal_def)
qed

text \<open>
  Claim C7 says that none of the four operations ever throws, whatever the input. It fails:
  \<^verbatim>\<open>is\<close> and \<^verbatim>\<open>getId\<close> read a property of \<open>dto\<close> without a check, which is a
  \<^verbatim>\<open>TypeError\<close> on \<^verbatim>\<open>null\<close> and \<^verbatim>\<open>undefined\<close>; and the read in \<^verbatim>\<open>isValid\<close> (hence in \<^verbatim>\<open>parse\<close>)
  runs a getter, whose exception is not caught.
\<close>
theorem operations_never_throw_counterexample:
  "is_dto (createDtoFactory ''id'') (env_of []) Null (Str ''a'') = Inl TypeError
   \<and> getId (createDtoFactory ''id'') (env_of []) Undefined = Inl TypeError
   \<and> isValid (createDtoFactory ''id'')
        (env_of [accessor_object ''id'' (Inl (Thrown (Str ''boom'')))]) (Ref 0)
      = Inl (Thrown (Str ''boom''))
   \<and> parse (createDtoFactory ''id'')
        (env_of [accessor_object ''id'' (Inl (Thrown (Str ''boom'')))]) (Ref 0)
      = Inl (Thrown (Str ''boom''))"
  by (simp add: is_method_def getId_method_def isValid_method_def parse_method_def heap_of_def
      accessor_object_def)

text \<open>
  Claim C7, amended. The only exception an operation raises is the one raised by its read of
  the discriminator property, and every other failure is reported by \<^verbatim>\<open>false\<close> or \<^verbatim>\<open>null\<close>.
  On \<^verbatim>\<open>null\<close>, \<^verbatim>\<open>undefined\<close>, a primitive or a function, \<^verbatim>\<open>isValid\<close> is false and \<^verbatim>\<open>parse\<close> is
  \<^verbatim>\<open>null\<close>. On an object whose read yields \<open>v\<close>, \<^verbatim>\<open>isValid\<close> tells whether \<open>v\<close> is a non-empty
  string and \<^verbatim>\<open>parse\<close> returns the object or \<^verbatim>\<open>null\<close> accordingly; on an object whose read
  throws \<open>e\<close>, both throw \<open>e\<close>, and they throw in no other case. \<^verbatim>\<open>is\<close> and \<^verbatim>\<open>getId\<close> read
  without a guard: when the read yields \<open>x\<close> they return \<open>strict_eq x y\<close> and \<open>x\<close>, when it
  throws \<open>e\<close> they throw \<open>e\<close>, which on \<^verbatim>\<open>null\<close> and \<^verbatim>\<open>undefined\<close> is a \<^verbatim>\<open>TypeError\<close>, and they
  throw in no other case. The read of an object returns whenever the property is absent or
  an own data property.
\<close>
theorem operations_throw_only_on_failed_read:
  "(raw = Null \<or> raw = Undefined \<or> typeof E raw \<noteq> ''object'' \<longrightarrow>
      isValid (createDtoFactory f) E raw = Inr False
      \<and> parse (createDtoFactory f) E raw = Inr Null)
   \<and> (raw \<noteq> Null \<and> typeof E raw = ''object'' \<and> js_get E raw f = Inr v \<longrightarrow>
      isValid (createDtoFactory f) E raw = Inr (nonempty_string v)
      \<and> parse (createDtoFactory f) E raw = Inr (if nonempty_string v then raw else Null))
   \<and> (raw \<noteq> Null \<and> typeof E raw = ''object'' \<and> js_get E raw f = Inl e \<longrightarrow>
      isValid (createDtoFactory f) E raw = Inl e
      \<and> parse (createDtoFactory f) E raw = Inl e)
   \<and> (isValid (createDtoFactory f) E raw = Inl e \<or> parse (createDtoFactory f) E raw = Inl e \<longrightarrow>
      js_get E raw f = Inl e)
   \<and> (js_get E dto f = Inr x \<longrightarrow>
      is_dto (createDtoFactory f) E dto y = Inr (strict_eq x y)
      \<and> getId (createDtoFactory f) E dto = Inr x)
   \<and> (js_get E dto f = Inl e \<longrightarrow>
      is_dto (createDtoFactory f) E dto y = Inl e
      \<and> getId (createDtoFactory f) E dto = Inl e)
   \<and> (is_dto (createDtoFactory f) E dto y = Inl e \<or> getId (createDtoFactory f) E dto = Inl e \<longrightarrow>
      js_get E dto f = Inl e)
   \<and> (dto = Null \<or> dto = Undefined \<longrightarrow>
        is_dto (createDtoFactory f) E dto y = Inl TypeError
        \<and> getId (createDtoFactory f) E dto = Inl TypeError)
   \<and> (\<not> has_property (store E a) f \<or> props (store E a) f = Some (Data p) \<longrightarrow>
        returns (js_get E (Ref a) f))
   \<and> (returns (isValid (createDtoFactory f) E raw) \<longleftrightarrow>
      raw = Null \<or> raw = Undefined \<or> typeof E raw \<noteq> ''object'' \<or> returns (js_get E raw f))
   \<and> (returns (parse (createDtoFactory f) E raw) \<longleftrightarrow>
      raw = Null \<or> raw = Undefined \<or> typeof E raw \<noteq> ''object'' \<or> returns (js_get E raw f))
   \<and> (returns (is_dto (createDtoFactory f) E dto y) \<longleftrightarrow> returns (js_get E dto f))
   \<and> (returns (getId (createDtoFactory f) E dto) \<longleftrightarrow> returns (js_get E dto f))"
proof -
  have not_object: "raw = Null \<or> raw = Undefined \<or> typeof E raw \<noteq> ''object'' \<longrightarrow>
      isValid_method f E raw = Inr False \<and> parse_method f E raw = Inr Null"
    by (simp add: parse_cases isValid_not_object)
  have read_ok: "raw \<noteq> Null \<and> typeof E raw = ''object'' \<and> js_get E raw f = Inr v \<longrightarrow>
      isValid_method f E raw = Inr (nonempty_string v)
      \<and> parse_method f E raw = Inr (if nonempty_string v then raw else Null)"
  proof (intro impI, elim conjE)
    assume "raw \<noteq> Null" "typeof E raw = ''object''" and r: "js_get E raw f = Inr v"
    then obtain a where a: "raw = Ref a" "\<not> callable (store E a)"
      using object_kind by blast
    with r have "isValid_method f E raw = Inr (nonempty_string v)"
      by (simp add: isValid_object_read)
    then show "isValid_method f E raw = Inr (nonempty_string v)
      \<and> parse_method f E raw = Inr (if nonempty_string v then raw else Null)"
      by (simp add: parse_method_def)
  qed
  have read_fails: "raw \<noteq> Null \<and> typeof E raw = ''object'' \<and> js_get E raw f = Inl e \<longrightarrow>
      isValid_method f E raw = Inl e \<and> parse_method f E raw = Inl e"
    by (simp add: parse_throws_iff isValid_throws_iff)
  have only_read: "isValid_method f E raw = Inl e \<or> parse_method f E raw = Inl e \<longrightarrow>
      js_get E raw f = Inl e"
    by (simp add: parse_throws_iff isValid_throws_iff)
  have is_get: "(js_get E dto f = Inr x \<longrightarrow>
      is_method f E dto y = Inr (strict_eq x y) \<and> getId_method f E dto = Inr x)
     \<and> (js_get E dto f = Inl e \<longrightarrow> is_method f E dto y = Inl e \<and> getId_method f E dto = Inl e)
     \<and> (is_method f E dto y = Inl e \<or> getId_method f E dto = Inl e \<longrightarrow> js_get E dto f = Inl e)"
    by (auto simp: is_method_def getId_method_def split: sum.splits)
  have nullish: "dto = Null \<or> dto = Undefined \<longrightarrow>
        is_method f E dto y = Inl TypeError \<and> getId_method f E dto = Inl TypeError"
    by (auto simp: is_method_def getId_method_def)
  have absent: "\<not> has_property (store E a) f \<longrightarrow> returns (js_get E (Ref a) f)"
    by (simp add: obj_get_absent)
  have own: "props (store E a) f = Some (Data p) \<longrightarrow> returns (js_get E (Ref a) f)"
    by (cases "store E a") simp
  have rets: "(returns (isValid_method f E raw) \<longleftrightarrow>
      raw = Null \<or> raw = Undefined \<or> typeof E raw \<noteq> ''object'' \<or> returns (js_get E raw f))
   \<and> (returns (parse_method f E raw) \<longleftrightarrow>
      raw = Null \<or> raw = Undefined \<or> typeof E raw \<noteq> ''object'' \<or> returns (js_get E raw f))
   \<and> (returns (is_method f E dto y) \<longleftrightarrow> returns (js_get E dto f))
   \<and> (returns (getId_method f E dto) \<longleftrightarrow> returns (js_get E dto f))"
    by (simp add: returns_isValid returns_parse returns_is getId_method_def)
  from not_object read_ok read_fails only_read is_get nullish absent own rets
  show ?thesis
    unfolding factory_methods by blast
qed

theorem operations_throw_only_on_failed_read_witness:
  "isValid (createDtoFactory ''id'') (env_of []) (Num (Fin 42)) = Inr False
   \<and> parse (createDtoFactory ''id'') (env_of []) (Num (Fin 42)) = Inr Null
   \<and> isValid (createDtoFactory ''id'') (env_of [literal [(''id'', Num (Fin 123))]]) (Ref 0) = Inr False
   \<and> parse (createDtoFactory ''id'') (env_of [literal [(''id'', Num (Fin 123))]]) (Ref 0) = Inr Null
   \<and> is_dto (createDtoFactory ''id'') (env_of [literal [(''id'', Num (Fin 123))]]) (Ref 0) (Str ''a'')
        = Inr False
   \<and> getId (createDtoFactory ''id'') (env_of [literal [(''id'', Num (Fin 123))]]) (Ref 0)
        = Inr (Num (Fin 123))
   \<and> isValid (createDtoFactory ''id'') (env_of [literal [(''id'', Str ''a'')]]) (Ref 0) = Inr True
   \<and> parse (createDtoFactory ''id'') (env_of [literal [(''id'', Str ''a'')]]) (Ref 0) = Inr (Ref 0)
   \<and> isValid (createDtoFactory ''id'')
        (env_of [accessor_object ''id'' (Inl (Thrown (Str ''boom'')))]) (Ref 0)
        = Inl (Thrown (Str ''boom''))
   \<and> parse (createDtoFactory ''id'')
        (env_of [accessor_object ''id'' (Inl (Thrown (Str ''boom'')))]) (Ref 0)
        = Inl (Thrown (Str ''boom''))
   \<and> is_dto (createDtoFactory ''id'')
        (env_of [accessor_object ''id'' (Inl (Thrown (Str ''boom'')))]) (Ref 0) (Str ''a'')
        = Inl (Thrown (Str ''boom''))
   \<and> getId (createDtoFactory ''id'')
        (env_of [accessor_object ''id'' (Inl (Thrown (Str ''boom'')))]) (Ref 0)
        = Inl (Thrown (Str ''boom''))
   \<and> returns (is_dto (createDtoFactory ''id'') (env_of [literal []]) (Ref 0) (Str ''a''))
   \<and> returns (parse (createDtoFactory ''id'') (env_of [literal []]) (Ref 0))
   \<and> is_dto (createDtoFactory ''id'') (env_of []) Null (Str ''a'') = Inl TypeError
   \<and> getId (createDtoFactory ''id'') (env_of []) Null = Inl TypeError"
  using
    operations_throw_only_on_failed_read [where f = "''id''" and E = "env_of []" and raw = "Num (Fin 42)" and dto = Null
      and y = "Str ''a''" and e = TypeError and a = 0 and v = Null and x = Null and p = Null]
    operations_throw_only_on_failed_read [where f = "''id''" and E = "env_of [literal [(''id'', Num (Fin 123))]]" and raw = "Ref 0"
      and dto = "Ref 0" and y = "Str ''a''" and e = TypeError and a = 0 and v = "Num (Fin 123)"
      and x = "Num (Fin 123)" and p = "Num (Fin 123)"]
    operations_throw_only_on_failed_read [where f = "''id''" and E = "env_of [literal [(''id'', Str ''a'')]]" and raw = "Ref 0"
      and dto = "Ref 0" and y = "Str ''a''" and e = TypeError and a = 0 and v = "Str ''a''"
      and x = "Str ''a''" and p = "Str ''a''"]
    operations_throw_only_on_failed_read [where f = "''id''" and E = "env_of [accessor_object ''id'' (Inl (Thrown (Str ''boom'')))]"
      and raw = "Ref 0" and dto = "Ref 0" and y = "Str ''a''" and e = "Thrown (Str ''boom'')"
      and a = 0 and v = Null and x = Null and p = Null]
    operations_throw_only_on_failed_read [where f = "''id''" and E = "env_of [literal []]" and raw = "Ref 0"
      and dto = "Ref 0" and y = "Str ''a''" and e = TypeError and a = 0 and v = Undefined
      and x = Undefined and p = Null]
  by (simp add: heap_of_def literal_def accessor_object_def strict_eq_def)

text \<open>
  Claim C8 says that a factory built with the empty field name rejects every input. It
  fails: the empty string is a property key like any other, and the object \<^verbatim>\<open>{"": "x"}\<close> is
  valid for that factory.
\<close>
theorem empty_field_name_counterexample:
  "isValid (createDtoFactory '''') (env_of [literal [('''', Str ''x'')]]) (Ref 0) = Inr True
   \<and> parse (createDtoFactory '''') (env_of [literal [('''', Str ''x'')]]) (Ref 0) = Inr (Ref 0)"
  by (simp add: isValid_method_def parse_method_def heap_of_def literal_def)

text \<open>
  Claim C8, amended. For the factory built with the empty field name, \<^verbatim>\<open>isValid\<close> is false
  and \<^verbatim>\<open>parse\<close> is \<^verbatim>\<open>null\<close> on every input but two kinds: an object (not a function) whose
  property named by the empty string reads as a non-empty string, which is valid and is returned
  by \<^verbatim>\<open>parse\<close>, and an object whose read of that property throws, where both throw the same.
  So \<^verbatim>\<open>null\<close>, \<^verbatim>\<open>undefined\<close>, primitives, functions, objects without such a property and objects
  holding under it anything but a non-empty string are all rejected.
\<close>
theorem empty_field_name_is_ordinary_key:
  "(raw = Null \<or> raw = Undefined \<or> typeof E raw \<noteq> ''object'' \<longrightarrow>
      isValid (createDtoFactory '''') E raw = Inr False
      \<and> parse (createDtoFactory '''') E raw = Inr Null)
   \<and> (js_get E raw '''' = Inr v \<and> \<not> nonempty_string v \<longrightarrow>
      isValid (createDtoFactory '''') E raw = Inr False
      \<and> parse (createDtoFactory '''') E raw = Inr Null)
   \<and> (raw \<noteq> Null \<and> typeof E raw = ''object'' \<and> js_get E raw '''' = Inr v \<and> nonempty_string v \<longrightarrow>
      isValid (createDtoFactory '''') E raw = Inr True
      \<and> parse (createDtoFactory '''') E raw = Inr raw)
   \<and> (raw \<noteq> Null \<and> typeof E raw = ''object'' \<and> js_get E raw '''' = Inl e \<longrightarrow>
      isValid (createDtoFactory '''') E raw = Inl e
      \<and> parse (createDtoFactory '''') E raw = Inl e)
   \<and> ((\<forall>a. raw = Ref a \<longrightarrow> \<not> has_property (store E a) '''') \<longrightarrow>
      isValid (createDtoFactory '''') E raw = Inr False
      \<and> parse (createDtoFactory '''') E raw = Inr Null)
   \<and> (\<not> callable (store E a) \<and> js_get E (Ref a) '''' = Inr (Str s) \<and> 0 < length s \<longrightarrow>
      isValid (createDtoFactory '''') E (Ref a) = Inr True
      \<and> parse (createDtoFactory '''') E (Ref a) = Inr (Ref a))"
proof -
  have not_object: "isValid_method '''' E raw = Inr False"
    if "raw = Null \<or> raw = Undefined \<or> typeof E raw \<noteq> ''object''"
    using that by (rule isValid_not_object)
  have object_read: "isValid_method '''' E raw = Inr (nonempty_string v)"
    if "raw \<noteq> Null" "typeof E raw = ''object''" "js_get E raw '''' = Inr v" for v
  proof -
    from that obtain a where "raw = Ref a" "\<not> callable (store E a)"
      using object_kind by blast
    with that(3) show ?thesis by (simp add: isValid_object_read)
  qed
  have other_value: "isValid_method '''' E raw = Inr False"
    if "js_get E raw '''' = Inr v" "\<not> nonempty_string v" for v
  proof (cases "raw = Null \<or> raw = Undefined \<or> typeof E raw \<noteq> ''object''")
    case True
    then show ?thesis by (rule not_object)
  next
    case False
    with that show ?thesis by (simp add: object_read)
  qed
  have throws: "isValid_method '''' E raw = Inl e"
    if "raw \<noteq> Null" "typeof E raw = ''object''" "js_get E raw '''' = Inl e"
    using that by (simp add: isValid_throws_iff)
  have no_property: "isValid_method '''' E raw = Inr False"
    if h: "\<forall>a. raw = Ref a \<longrightarrow> \<not> has_property (store E a) ''''"
  proof (cases "raw = Null \<or> raw = Undefined \<or> typeof E raw \<noteq> ''object''")
    case True
    then show ?thesis by (rule not_object)
  next
    case False
    then obtain a where a: "raw = Ref a" "\<not> callable (store E a)"
      using object_kind by blast
    with h have "js_get E raw '''' = Inr Undefined"
      by (simp add: obj_get_absent)
    then show ?thesis using other_value [of Undefined] by simp
  qed
  have valid: "isValid_method '''' E (Ref a) = Inr True"
    if "\<not> callable (store E a)" "js_get E (Ref a) '''' = Inr (Str s)" "0 < length s"
    using that by (simp add: isValid_object)
  from not_object object_read other_value throws no_property valid show ?thesis
    unfolding factory_methods parse_method_def by (auto simp del: js_get.simps)
qed

theorem empty_field_name_is_ordinary_key_witness:
  "isValid (createDtoFactory '''') (env_of [literal [(''id'', Str ''a'')]]) (Ref 0) = Inr False
   \<and> parse (createDtoFactory '''') (env_of [literal [(''id'', Str ''a'')]]) (Ref 0) = Inr Null
   \<and> isValid (createDtoFactory '''') (env_of [literal [('''', Num (Fin 5))]]) (Ref 0) = Inr False
   \<and> parse (createDtoFactory '''') (env_of [literal [('''', Num (Fin 5))]]) (Ref 0) = Inr Null
   \<and> isValid (createDtoFactory '''') (env_of [literal [('''', Str '''')]]) (Ref 0) = Inr False
   \<and> parse (createDtoFactory '''') (env_of [literal [('''', Str '''')]]) (Ref 0) = Inr Null
   \<and> isValid (createDtoFactory '''') (env_of [function_with [('''', Str ''x'')]]) (Ref 0) = Inr False
   \<and> parse (createDtoFactory '''') (env_of [function_with [('''', Str ''x'')]]) (Ref 0) = Inr Null
   \<and> isValid (createDtoFactory '''') (env_of []) Null = Inr False
   \<and> parse (createDtoFactory '''') (env_of []) Null = Inr Null
   \<and> isValid (createDtoFactory '''') (env_of [literal [('''', Str ''x'')]]) (Ref 0) = Inr True
   \<and> parse (createDtoFactory '''') (env_of [literal [('''', Str ''x'')]]) (Ref 0) = Inr (Ref 0)
   \<and> isValid (createDtoFactory '''')
        (env_of [accessor_object '''' (Inl (Thrown (Str ''boom'')))]) (Ref 0) = Inl (Thrown (Str ''boom''))
   \<and> parse (createDtoFactory '''')
        (env_of [accessor_object '''' (Inl (Thrown (Str ''boom'')))]) (Ref 0) = Inl (Thrown (Str ''boom''))"
  using
    empty_field_name_is_ordinary_key [where raw = "Ref 0" and E = "env_of [literal [(''id'', Str ''a'')]]" and a = 0
      and s = "''x''" and v = Undefined and e = TypeError]
    empty_field_name_is_ordinary_key [where raw = "Ref 0" and E = "env_of [literal [('''', Num (Fin 5))]]" and a = 0
      and s = "''x''" and v = "Num (Fin 5)" and e = TypeError]
    empty_field_name_is_ordinary_key [where raw = "Ref 0" and E = "env_of [literal [('''', Str '''')]]" and a = 0
      and s = "''x''" and v = "Str ''''" and e = TypeError]
    empty_field_name_is_ordinary_key [where raw = "Ref 0" and E = "env_of [function_with [('''', Str ''x'')]]" and a = 0
      and s = "''x''" and v = "Str ''x''" and e = TypeError]
    empty_field_name_is_ordinary_key [where raw = Null and E = "env_of []" and a = 0
      and s = "''x''" and v = Undefined and e = TypeError]
    empty_field_name_is_ordinary_key [where raw = "Ref 0" and E = "env_of [literal [('''', Str ''x'')]]" and a = 0
      and s = "''x''" and v = "Str ''x''" and e = TypeError]
    empty_field_name_is_ordinary_key [where raw = "Ref 0" and E = "env_of [accessor_object '''' (Inl (Thrown (Str ''boom'')))]"
      and a = 0 and s = "''x''" and v = Undefined and e = "Thrown (Str ''boom'')"]
  by (simp add: heap_of_def literal_def accessor_object_def function_with_def)

text \<open>
  Claim C9. The discriminator value is never compared with a set of known values: the
  factory is built from the field name alone, and every object whose discriminator reads as
  a non-empty string, whatever the string, is valid and is returned by \<^verbatim>\<open>parse\<close>.
\<close>
theorem unknown_discriminator_values_accepted:
  assumes "\<not> callable (store E a)" and "js_get E (Ref a) f = Inr (Str s)" and "0 < length s"
  shows "isValid (createDtoFactory f) E (Ref a) = Inr True
     \<and> parse (createDtoFactory f) E (Ref a) = Inr (Ref a)"
  using assms by (simp add: parse_cases isValid_object)

theorem unknown_discriminator_values_accepted_witness:
  "isValid (createDtoFactory ''id'') (env_of [literal [(''id'', Str ''no_such_schema'')]]) (Ref 0) = Inr True
   \<and> parse (createDtoFactory ''id'') (env_of [literal [(''id'', Str ''no_such_schema'')]]) (Ref 0) = Inr (Ref 0)"
  using unknown_discriminator_values_accepted
    [of "env_of [literal [(''id'', Str ''no_such_schema'')]]" 0 "''id''" "''no_such_schema''"]
  by (simp add: heap_of_def literal_def)

text \<open>
  Claim C10. On an object that has no property named by the discriminator field, the read
  yields \<^verbatim>\<open>undefined\<close> and \<^verbatim>\<open>is(dto, s)\<close> returns false, without throwing, for every string \<open>s\<close>
  (and for every candidate other than \<^verbatim>\<open>undefined\<close> itself).
\<close>
theorem is_false_when_field_missing:
  assumes "\<not> has_property (store E a) f"
  shows "js_get E (Ref a) f = Inr Undefined
     \<and> is_dto (createDtoFactory f) E (Ref a) (Str s) = Inr False
     \<and> (y \<noteq> Undefined \<longrightarrow> is_dto (createDtoFactory f) E (Ref a) y = Inr False)"
  using assms by (simp add: is_method_def obj_get_absent)

theorem is_false_when_field_missing_witness:
  "is_dto (createDtoFactory ''id'') (env_of [literal [(''type'', Str ''a'')]]) (Ref 0) (Str ''a'') = Inr False"
  using is_false_when_field_missing [of "env_of [literal [(''type'', Str ''a'')]]" 0 "''id''" "''a''" "Str ''a''"]
  by (simp add: heap_of_def literal_def)

end
